theory Spec2Isabelle
  imports Complex_Main "HOL-Library.Sublist"
begin

section \<open>Strings and numbers of the host language\<close>

text \<open>
  A string is the list of its code units, and the model has the strings whose code units
  are all below 256 (Basic Latin and the Latin-1 Supplement): a text with a code unit
  beyond them is not a value of the model. On these strings \<open>toLowerCase\<close> is
  \<open>String.prototype.toLowerCase\<close>: it maps the capital letters A to Z, and the capital
  letters from U+00C0 to U+00DE except the multiplication sign U+00D7, to the letter 32
  places further, and leaves every other code unit as it is.
\<close>

definition latin1Capitals :: string where
  "latin1Capitals =
     [CHR 0xC0, CHR 0xC1, CHR 0xC2, CHR 0xC3, CHR 0xC4, CHR 0xC5, CHR 0xC6,
      CHR 0xC7, CHR 0xC8, CHR 0xC9, CHR 0xCA, CHR 0xCB, CHR 0xCC, CHR 0xCD,
      CHR 0xCE, CHR 0xCF, CHR 0xD0, CHR 0xD1, CHR 0xD2, CHR 0xD3, CHR 0xD4,
      CHR 0xD5, CHR 0xD6, CHR 0xD8, CHR 0xD9, CHR 0xDA, CHR 0xDB, CHR 0xDC,
      CHR 0xDD, CHR 0xDE]"

definition latin1Smalls :: string where
  "latin1Smalls =
     [CHR 0xE0, CHR 0xE1, CHR 0xE2, CHR 0xE3, CHR 0xE4, CHR 0xE5, CHR 0xE6,
      CHR 0xE7, CHR 0xE8, CHR 0xE9, CHR 0xEA, CHR 0xEB, CHR 0xEC, CHR 0xED,
      CHR 0xEE, CHR 0xEF, CHR 0xF0, CHR 0xF1, CHR 0xF2, CHR 0xF3, CHR 0xF4,
      CHR 0xF5, CHR 0xF6, CHR 0xF8, CHR 0xF9, CHR 0xFA, CHR 0xFB, CHR 0xFC,
      CHR 0xFD, CHR 0xFE]"

definition toLowerChar :: "char \<Rightarrow> char" where
  "toLowerChar c =
     (case map_of (zip (''ABCDEFGHIJKLMNOPQRSTUVWXYZ'' @ latin1Capitals)
                       (''abcdefghijklmnopqrstuvwxyz'' @ latin1Smalls)) c of
        Some l \<Rightarrow> l
      | None \<Rightarrow> c)"

definition toLowerCase :: "string \<Rightarrow> string" where
  "toLowerCase s = map toLowerChar s"

text \<open>\<open>String.prototype.includes\<close>: the needle occurs as a contiguous piece of the text.\<close>

fun includesStr :: "string \<Rightarrow> string \<Rightarrow> bool" where
  "includesStr [] needle = (needle = [])"
| "includesStr (c # cs) needle = (prefix needle (c # cs) \<or> includesStr cs needle)"

text \<open>\<open>Array.prototype.join\<close> on an array of strings.\<close>

fun join :: "string \<Rightarrow> string list \<Rightarrow> string" where
  "join sep [] = []"
| "join sep [x] = x"
| "join sep (x # y # ys) = x @ sep @ join sep (y # ys)"

text \<open>Decimal text of a natural number and of an integer, as a template literal gives it.\<close>

definition digit :: "nat \<Rightarrow> char" where
  "digit d = ''0123456789'' ! d"

fun showNat :: "nat \<Rightarrow> string" where
  "showNat n = (if n < 10 then [digit n] else showNat (n div 10) @ [digit (n mod 10)])"

declare showNat.simps [simp del]

definition showInt :: "int \<Rightarrow> string" where
  "showInt i = (if i < 0 then ''-'' @ showNat (nat (- i)) else showNat (nat i))"

text \<open>
  \<open>Array.prototype.slice(0, end)\<close> for an integral \<open>end\<close>: a negative \<open>end\<close> counts from
  the end of the array.
\<close>

definition slice0 :: "int \<Rightarrow> 'a list \<Rightarrow> 'a list" where
  "slice0 n xs =
     (if n < 0 then take (nat (max 0 (int (length xs) + n))) xs else take (nat n) xs)"

text \<open>\<open>[...new Set(xs)]\<close>: the distinct elements in the order of their first occurrence.\<close>

definition newSet :: "'a list \<Rightarrow> 'a list" where
  "newSet xs = foldl (\<lambda>seen x. if x \<in> set seen then seen else seen @ [x]) [] xs"

subsection \<open>Property lookup on an object literal\<close>

text \<open>
  The lookup tables of the engine are object literals indexed by the mood or the weather
  text. Such a lookup finds the literal's own entry, or else a property inherited from
  \<open>Object.prototype\<close> (a function, or the prototype object itself for \<open>__proto__\<close>), or
  else \<open>undefined\<close>. An inherited value is truthy and has neither \<open>includes\<close> nor
  \<open>some\<close>, so calling one of them on it throws a TypeError. \<open>objectPrototype\<close> lists
  each inherited name with the \<open>length\<close> property of its value (absent on the prototype
  object) and the text the value has once joined into a string.
\<close>

datatype error = TypeError

datatype 'a property = Own 'a | Inherited "nat option" string | Undefined

definition objectPrototype :: "(string \<times> nat option \<times> string) list" where
  "objectPrototype =
     [(''constructor'', Some 1, ''function Object() { [native code] }''),
      (''__defineGetter__'', Some 2, ''function __defineGetter__() { [native code] }''),
      (''__defineSetter__'', Some 2, ''function __defineSetter__() { [native code] }''),
      (''hasOwnProperty'', Some 1, ''function hasOwnProperty() { [native code] }''),
      (''__lookupGetter__'', Some 1, ''function __lookupGetter__() { [native code] }''),
      (''__lookupSetter__'', Some 1, ''function __lookupSetter__() { [native code] }''),
      (''isPrototypeOf'', Some 1, ''function isPrototypeOf() { [native code] }''),
      (''propertyIsEnumerable'', Some 1, ''function propertyIsEnumerable() { [native code] }''),
      (''toString'', Some 0, ''function toString() { [native code] }''),
      (''valueOf'', Some 0, ''function valueOf() { [native code] }''),
      (''__proto__'', None, ''[object Object]''),
      (''toLocaleString'', Some 0, ''function toLocaleString() { [native code] }'')]"

definition recordGet :: "(string \<times> 'a) list \<Rightarrow> string \<Rightarrow> 'a property" where
  "recordGet table key =
     (case map_of table key of
        Some v \<Rightarrow> Own v
      | None \<Rightarrow>
          (case map_of objectPrototype key of
             Some (len, txt) \<Rightarrow> Inherited len txt
           | None \<Rightarrow> Undefined))"

definition inheritedName :: "string \<Rightarrow> bool" where
  "inheritedName key = (key \<in> set (map fst objectPrototype))"

section \<open>Data model\<close>

text \<open>
  Modelled from the spec: the type declarations of \<open>shared/types\<close> (\<open>Garment\<close>,
  \<open>RecommendationInput\<close>, \<open>Outfit\<close>, \<open>RecommendationOutput\<close>, \<open>Mood\<close>,
  \<open>WeatherCondition\<close>, \<open>GarmentCategory\<close>) are not among the sources. The records
  below have the fields of the spec's data model that the engine reads or writes, under
  the names the engine and the input schema of the recommendation router use.

  Field names are the source's, except where two records share a name or the name is a
  constant of HOL: \<open>id\<close> is \<open>garmentId\<close> on a garment and \<open>outfitId\<close> on an outfit, and
  the outfit's \<open>userId\<close>, \<open>garmentIds\<close>, \<open>explanation\<close> and \<open>score\<close> carry the prefix
  \<open>outfit\<close>. The category is one of the five of the router's schema. Mood, weather and
  season are the texts the running program compares, so that a text outside the
  enumerations is a value of the model as it is of the program. A temperature is a real
  number (the engine only compares it with 25 and 10, which doubles do as reals do), a
  limit is an integer, and a date is its time value in milliseconds.
\<close>

datatype GarmentCategory = Tops | Bottoms | Shoes | Outerwear | Accessories

record Garment =
  garmentId :: string
  category :: GarmentCategory
  primaryColor :: string
  material :: "string option"
  season :: string
  tags :: "string list"

record RecommendationInput =
  userId :: string
  mood :: "string option"
  weather :: "string option"
  temperature :: "real option"
  occasion :: "string option"
  limitCount :: "int option"

record OutfitCandidate =
  garmentIds :: "string list"
  score :: int
  reasons :: "string list"

record Outfit =
  outfitId :: string
  outfitUserId :: string
  outfitGarmentIds :: "string list"
  contextWeather :: "string option"
  contextMood :: "string option"
  outfitExplanation :: string
  outfitScore :: int
  createdAt :: int

record RecommendationOutput =
  outfits :: "Outfit list"
  explanation :: string
  totalGenerated :: nat

text \<open>
  What the engine takes from its host: the readings of the system clock, in the order they
  are taken during one call, and the text of a number in a template literal.
\<close>

record Host =
  clock :: "nat \<Rightarrow> int"
  numberToString :: "real \<Rightarrow> string"

section \<open>Context filter\<close>

definition weatherSeasonMap :: "(string \<times> string list) list" where
  "weatherSeasonMap =
     [(''sunny'', [''spring'', ''summer'', ''all-season'']),
      (''cloudy'', [''spring'', ''summer'', ''fall'', ''all-season'']),
      (''rainy'', [''spring'', ''fall'', ''winter'', ''all-season'']),
      (''snowy'', [''winter'', ''all-season'']),
      (''windy'', [''fall'', ''winter'', ''all-season'']),
      (''hot'', [''summer'', ''all-season'']),
      (''cold'', [''winter'', ''all-season''])]"

definition isSeasonAppropriate :: "string \<Rightarrow> string \<Rightarrow> real option \<Rightarrow> error + bool" where
  "isSeasonAppropriate garmentSeason weatherText temp =
     (if garmentSeason = ''all-season'' then Inr True
      else case recordGet weatherSeasonMap weatherText of
             Own seasons \<Rightarrow> Inr (garmentSeason \<in> set seasons)
           | Inherited len txt \<Rightarrow> Inl TypeError
           | Undefined \<Rightarrow> Inr False)"

definition coldWeatherMaterials :: "string list" where
  "coldWeatherMaterials = [''wool'', ''fleece'', ''down'', ''synthetic'']"

definition isTemperatureAppropriate :: "Garment \<Rightarrow> real \<Rightarrow> bool" where
  "isTemperatureAppropriate garment temp =
     (let mat = (case material garment of Some m \<Rightarrow> toLowerCase m | None \<Rightarrow> []);
          cat = category garment
      in if temp > 25 then
           (if cat = Outerwear \<or> includesStr mat ''wool'' \<or> includesStr mat ''fleece''
            then False else True)
         else if temp < 10 then
           (list_ex (\<lambda>m. includesStr mat m) coldWeatherMaterials \<or> cat = Outerwear)
         else True)"

text \<open>The callback of the filter: the season check runs when the weather text is truthy.\<close>

definition contextAllows :: "RecommendationInput \<Rightarrow> Garment \<Rightarrow> error + bool" where
  "contextAllows input garment =
     (case (case weather input of
              None \<Rightarrow> Inr True
            | Some w \<Rightarrow>
                if w = [] then Inr True
                else isSeasonAppropriate (season garment) w (temperature input)) of
        Inl e \<Rightarrow> Inl e
      | Inr seasonOk \<Rightarrow>
          if \<not> seasonOk then Inr False
          else (case temperature input of
                  None \<Rightarrow> Inr True
                | Some t \<Rightarrow> if \<not> isTemperatureAppropriate garment t then Inr False else Inr True))"

text \<open>\<open>Array.prototype.filter\<close> with a callback that may throw: the first throw ends it.\<close>

fun filterE :: "('a \<Rightarrow> error + bool) \<Rightarrow> 'a list \<Rightarrow> error + 'a list" where
  "filterE p [] = Inr []"
| "filterE p (x # xs) =
     (case p x of
        Inl e \<Rightarrow> Inl e
      | Inr keep \<Rightarrow>
          (case filterE p xs of
             Inl e \<Rightarrow> Inl e
           | Inr ys \<Rightarrow> Inr (if keep then x # ys else ys)))"

definition filterByContext :: "Garment list \<Rightarrow> RecommendationInput \<Rightarrow> error + Garment list" where
  "filterByContext garments input = filterE (contextAllows input) garments"

section \<open>Scorer\<close>

subsection \<open>Color harmony\<close>

definition complementaryPairs :: "(string \<times> string) list" where
  "complementaryPairs = [(''blue'', ''orange''), (''red'', ''green''), (''yellow'', ''purple'')]"

definition neutrals :: "string list" where
  "neutrals = [''black'', ''white'', ''gray'', ''beige'', ''navy'']"

definition scoreColorHarmony :: "Garment list \<Rightarrow> int" where
  "scoreColorHarmony garments =
     (if length garments < 2 then 0
      else
        let colors = map (\<lambda>g. toLowerCase (primaryColor g)) garments;
            harmonyScore =
              foldl (\<lambda>h (color1, color2).
                       if color1 \<in> set colors \<and> color2 \<in> set colors then h + 15 else h)
                    0 complementaryPairs;
            harmonyScore =
              (if list_all (\<lambda>c. c = colors ! 0) colors then harmonyScore + 10 else harmonyScore);
            neutralCount = length (filter (\<lambda>c. c \<in> set neutrals) colors);
            harmonyScore =
              (if int neutralCount \<ge> int (length colors) - 1 then harmonyScore + 8
               else harmonyScore)
        in min harmonyScore 20)"

subsection \<open>Mood alignment\<close>

definition moodTags :: "(string \<times> string list) list" where
  "moodTags =
     [(''casual'', [''cotton'', ''denim'', ''relaxed'']),
      (''formal'', [''silk'', ''wool'', ''structured'']),
      (''adventurous'', [''bold'', ''colorful'', ''unique'']),
      (''cozy'', [''fleece'', ''warm'', ''soft'']),
      (''energetic'', [''bright'', ''bold'', ''dynamic'']),
      (''minimalist'', [''neutral'', ''simple'', ''clean'']),
      (''bold'', [''vibrant'', ''statement'', ''eye-catching''])]"

text \<open>The loop of \<open>scoreMoodAlignment\<close> over the garments, for an array of target tags.\<close>

definition moodMatches :: "string list \<Rightarrow> Garment \<Rightarrow> nat" where
  "moodMatches targetTags garment =
     (let garmentTags =
            (case material garment of Some m \<Rightarrow> toLowerCase m | None \<Rightarrow> [])
            # map toLowerCase (tags garment)
      in length (filter (\<lambda>t. list_ex (\<lambda>target. includesStr t target) targetTags) garmentTags))"

definition moodLoop :: "string list \<Rightarrow> Garment list \<Rightarrow> int" where
  "moodLoop targetTags garments =
     foldl (\<lambda>sc garment. sc + int (moodMatches targetTags garment) * 3) 0 garments"

text \<open>
  With an inherited value for the target tags, the first garment's first tag already calls
  \<open>some\<close> on it.
\<close>

definition scoreMoodAlignment :: "Garment list \<Rightarrow> string \<Rightarrow> error + int" where
  "scoreMoodAlignment garments moodText =
     (case recordGet moodTags moodText of
        Own targetTags \<Rightarrow> Inr (min (moodLoop targetTags garments) 20)
      | Undefined \<Rightarrow> Inr (min (moodLoop [] garments) 20)
      | Inherited len txt \<Rightarrow> if garments = [] then Inr (min 0 20) else Inl TypeError)"

subsection \<open>Style coherence\<close>

definition styleKeywords :: "string list" where
  "styleKeywords = [''minimalist'', ''bold'', ''classic'', ''trendy'', ''avant-garde'', ''casual'']"

definition extractStyles :: "string list \<Rightarrow> string list" where
  "extractStyles ts = filter (\<lambda>tag. list_ex (\<lambda>keyword. includesStr tag keyword) styleKeywords) ts"

text \<open>The elements that occur again later in the list: the filter with \<open>slice(index + 1)\<close>.\<close>

fun occurringLater :: "'a list \<Rightarrow> 'a list" where
  "occurringLater [] = []"
| "occurringLater (x # xs) = (if x \<in> set xs then x # occurringLater xs else occurringLater xs)"

definition scoreStyleCoherence :: "Garment list \<Rightarrow> int" where
  "scoreStyleCoherence garments =
     (if length garments < 2 then 0
      else
        let allStyles = concat (map (\<lambda>g. extractStyles (tags g)) garments)
        in if length allStyles = 0 then 5
           else
             let styleMatches = occurringLater allStyles
             in if length styleMatches > 0 then 15
                else
                  let hasMinimalist = list_ex (\<lambda>s. includesStr s ''minimalist'') allStyles;
                      hasBold = list_ex (\<lambda>s. includesStr s ''bold'') allStyles;
                      hasClassic = list_ex (\<lambda>s. includesStr s ''classic'') allStyles
                  in if (hasMinimalist \<and> hasClassic) \<or> (hasBold \<and> hasClassic) then 10
                     else 5)"

subsection \<open>Occasion matching\<close>

definition moodToOccasion :: "(string \<times> string list) list" where
  "moodToOccasion =
     [(''casual'', [''casual'', ''weekend'']),
      (''formal'', [''formal'', ''work'', ''night'']),
      (''adventurous'', [''weekend'', ''casual'']),
      (''cozy'', [''casual'', ''weekend'']),
      (''energetic'', [''casual'', ''work'']),
      (''minimalist'', [''work'', ''smart-casual'', ''formal'']),
      (''bold'', [''night'', ''weekend'', ''casual''])]"

definition occasionVocabulary :: "string list" where
  "occasionVocabulary = [''casual'', ''formal'', ''work'', ''smart-casual'', ''night'', ''weekend'']"

definition garmentOccasions :: "Garment \<Rightarrow> string list" where
  "garmentOccasions garment = filter (\<lambda>tag. tag \<in> set occasionVocabulary) (tags garment)"

definition occasionLoop :: "string list \<Rightarrow> Garment list \<Rightarrow> int" where
  "occasionLoop targetOccasions garments =
     foldl (\<lambda>matchScore garment.
              matchScore
              + int (length (filter (\<lambda>occ. occ \<in> set targetOccasions) (garmentOccasions garment))) * 2)
           0 garments"

text \<open>
  An inherited value whose \<open>length\<close> is not 0 enters the loop, and the first garment that
  has an occasion tag calls \<open>includes\<close> on it.
\<close>

definition scoreOccasionMatching :: "Garment list \<Rightarrow> string \<Rightarrow> error + int" where
  "scoreOccasionMatching garments moodText =
     (case recordGet moodToOccasion moodText of
        Own targetOccasions \<Rightarrow>
          if length targetOccasions = 0 then Inr 0
          else Inr (min (occasionLoop targetOccasions garments) 12)
      | Undefined \<Rightarrow> Inr 0
      | Inherited len txt \<Rightarrow>
          if len = Some 0 then Inr 0
          else if list_ex (\<lambda>g. garmentOccasions g \<noteq> []) garments then Inl TypeError
          else Inr (min 0 12))"

subsection \<open>Versatility and diversity\<close>

definition scoreVersatility :: "Garment list \<Rightarrow> int" where
  "scoreVersatility garments =
     min (foldl (\<lambda>versatilityScore garment.
                   if ''versatile-high'' \<in> set (tags garment) then versatilityScore + 2
                   else if ''versatile-medium'' \<in> set (tags garment) then versatilityScore + 1
                   else versatilityScore)
                0 garments)
         8"

definition scoreDiversity :: "Garment list \<Rightarrow> int" where
  "scoreDiversity garments = (if length garments \<ge> 3 then 10 else 5)"

subsection \<open>The score of an outfit\<close>

definition scoreOutfit :: "Garment list \<Rightarrow> string \<Rightarrow> Garment list \<Rightarrow> error + int" where
  "scoreOutfit garments moodText allGarments =
     (let sc = 0 + 50;
          sc = sc + scoreColorHarmony garments
      in case scoreMoodAlignment garments moodText of
           Inl e \<Rightarrow> Inl e
         | Inr moodScore \<Rightarrow>
             (let sc = sc + moodScore;
                  sc = sc + scoreStyleCoherence garments
              in (case scoreOccasionMatching garments moodText of
                    Inl e \<Rightarrow> Inl e
                  | Inr occasionScore \<Rightarrow>
                      (let sc = sc + occasionScore;
                           sc = sc + scoreVersatility garments;
                           sc = sc + scoreDiversity garments
                       in Inr (min sc 100)))))"

subsection \<open>Reasons\<close>

definition moodDescriptions :: "(string \<times> string) list" where
  "moodDescriptions =
     [(''casual'', ''Perfect for a relaxed day''),
      (''formal'', ''Polished and professional''),
      (''adventurous'', ''Ready for an adventure''),
      (''cozy'', ''Comfortable and warm''),
      (''energetic'', ''Energizing and uplifting''),
      (''minimalist'', ''Clean and simple''),
      (''bold'', ''Statement-making outfit'')]"

text \<open>
  The last reason: the mood's own description, or the fallback when the lookup gives
  \<open>undefined\<close>. An inherited value is truthy and is pushed as it is; the list holds the
  text it has once the reasons are joined.
\<close>

definition closingDescription :: "string \<Rightarrow> string" where
  "closingDescription moodText =
     (case recordGet moodDescriptions moodText of
        Own description \<Rightarrow> description
      | Undefined \<Rightarrow> ''Well-coordinated look''
      | Inherited len txt \<Rightarrow> txt)"

definition generateReasons :: "Garment list \<Rightarrow> string \<Rightarrow> string list" where
  "generateReasons garments moodText =
     (let rs = [];
          rs = (if length garments \<ge> 3
                then rs @ [''Well-balanced outfit with '' @ showNat (length garments) @ '' pieces'']
                else rs);
          hasNeutral =
            list_ex (\<lambda>g. toLowerCase (primaryColor g)
                            \<in> set [''black'', ''white'', ''gray'', ''navy'', ''beige''])
                    garments;
          rs = (if hasNeutral then rs @ [''Neutral base for easy coordination''] else rs);
          allStyles =
            concat (map (\<lambda>g. filter (\<lambda>t. t \<in> set [''minimalist'', ''bold'', ''classic'',
                                                      ''trendy'', ''avant-garde''])
                                     (tags g))
                        garments);
          uniqueStyles = newSet allStyles;
          rs = (if length uniqueStyles = 1
                then rs @ [''Cohesive '' @ uniqueStyles ! 0 @ '' aesthetic'']
                else if ''classic'' \<in> set uniqueStyles
                        \<and> (''bold'' \<in> set uniqueStyles \<or> ''minimalist'' \<in> set uniqueStyles)
                then rs @ [''Classic foundation with modern twist'']
                else rs);
          allOccasions = concat (map garmentOccasions garments);
          commonOccasions = newSet allOccasions;
          rs = (if ''formal'' \<in> set commonOccasions then rs @ [''Polished and put-together'']
                else if ''casual'' \<in> set commonOccasions
                then rs @ [''Comfortable and approachable'']
                else rs);
          versatilePieces = length (filter (\<lambda>g. ''versatile-high'' \<in> set (tags g)) garments);
          rs = (if versatilePieces \<ge> 2 then rs @ [''Mix-and-match friendly pieces''] else rs)
      in rs @ [closingDescription moodText])"

section \<open>Candidate generator\<close>

text \<open>
  \<open>groupByCategory\<close> builds a map from category to the garments of that category, in the
  order of the input; \<open>getOrEmpty\<close> is \<open>categories.get(c) || []\<close>.
\<close>

definition groupByCategory :: "Garment list \<Rightarrow> (GarmentCategory \<rightharpoonup> Garment list)" where
  "groupByCategory garments =
     foldl (\<lambda>grouped garment.
              let grouped = (if grouped (category garment) = None
                             then grouped(category garment \<mapsto> [])
                             else grouped)
              in (case grouped (category garment) of
                    Some gs \<Rightarrow> grouped(category garment \<mapsto> gs @ [garment])
                  | None \<Rightarrow> grouped))
           Map.empty garments"

definition getOrEmpty :: "(GarmentCategory \<rightharpoonup> Garment list) \<Rightarrow> GarmentCategory \<Rightarrow> Garment list" where
  "getOrEmpty categories c = (case categories c of Some gs \<Rightarrow> gs | None \<Rightarrow> [])"

text \<open>
  The stand-in tried when there are no shoes. The source gives it an id and a category
  only; its other fields are never read, since a piece whose id is \<open>barefoot\<close> is left out
  of the outfit.
\<close>

definition barefoot :: Garment where
  "barefoot = \<lparr>garmentId = ''barefoot'', category = Shoes, primaryColor = [],
                material = None, season = [], tags = []\<rparr>"

text \<open>A loop whose body pushes candidates and may throw: the first throw ends it.\<close>

fun forEach :: "'a list \<Rightarrow> ('a \<Rightarrow> error + 'b list) \<Rightarrow> error + 'b list" where
  "forEach [] body = Inr []"
| "forEach (x # xs) body =
     (case body x of
        Inl e \<Rightarrow> Inl e
      | Inr pushed \<Rightarrow>
          (case forEach xs body of
             Inl e \<Rightarrow> Inl e
           | Inr rest \<Rightarrow> Inr (pushed @ rest)))"

definition shoeCandidate ::
  "Garment list \<Rightarrow> string \<Rightarrow> Garment \<Rightarrow> Garment \<Rightarrow> Garment \<Rightarrow> error + OutfitCandidate list" where
  "shoeCandidate garments moodText topG bottomG shoe =
     (let isBarefoot = (garmentId shoe = ''barefoot'');
          ids = [garmentId topG, garmentId bottomG];
          ids = (if \<not> isBarefoot then ids @ [garmentId shoe] else ids);
          outfitPieces = (if isBarefoot then [topG, bottomG] else [topG, bottomG, shoe])
      in case scoreOutfit outfitPieces moodText garments of
           Inl e \<Rightarrow> Inl e
         | Inr sc \<Rightarrow>
             Inr [\<lparr>garmentIds = ids, score = sc,
                   reasons = generateReasons outfitPieces moodText\<rparr>])"

definition accessoryCandidate ::
  "Garment list \<Rightarrow> string \<Rightarrow> Garment list \<Rightarrow> Garment \<Rightarrow> Garment \<Rightarrow> Garment
     \<Rightarrow> error + OutfitCandidate list" where
  "accessoryCandidate garments moodText shoes topG bottomG accessory =
     (let ids = [garmentId topG, garmentId bottomG];
          ids = (if length shoes > 0 then ids @ [garmentId (shoes ! 0)] else ids);
          ids = ids @ [garmentId accessory];
          outfitPieces = [topG, bottomG] @ take 1 shoes @ [accessory]
      in case scoreOutfit outfitPieces moodText garments of
           Inl e \<Rightarrow> Inl e
         | Inr sc \<Rightarrow>
             Inr [\<lparr>garmentIds = ids, score = sc,
                   reasons = generateReasons outfitPieces moodText\<rparr>])"

definition pairCandidates ::
  "Garment list \<Rightarrow> string \<Rightarrow> (GarmentCategory \<rightharpoonup> Garment list) \<Rightarrow> Garment list
     \<Rightarrow> Garment \<Rightarrow> Garment \<Rightarrow> error + OutfitCandidate list" where
  "pairCandidates garments moodText categories shoes topG bottomG =
     (let shoesToTry = (if length shoes > 0 then shoes else [barefoot])
      in case forEach shoesToTry (shoeCandidate garments moodText topG bottomG) of
           Inl e \<Rightarrow> Inl e
         | Inr withShoes \<Rightarrow>
             (let accessories = getOrEmpty categories Accessories
              in (case forEach (take 2 accessories)
                         (accessoryCandidate garments moodText shoes topG bottomG) of
                    Inl e \<Rightarrow> Inl e
                  | Inr withAccessories \<Rightarrow> Inr (withShoes @ withAccessories))))"

definition generateCandidates :: "Garment list \<Rightarrow> string \<Rightarrow> error + OutfitCandidate list" where
  "generateCandidates garments moodText =
     (let categories = groupByCategory garments;
          tops = getOrEmpty categories Tops;
          bottoms = getOrEmpty categories Bottoms;
          shoes = getOrEmpty categories Shoes
      in if length tops = 0 \<or> length bottoms = 0 then Inr []
         else forEach tops (\<lambda>topG.
                forEach bottoms (\<lambda>bottomG.
                  pairCandidates garments moodText categories shoes topG bottomG)))"

section \<open>The engine\<close>

definition generateExplanation :: "Host \<Rightarrow> RecommendationInput \<Rightarrow> string" where
  "generateExplanation host input =
     (let parts = [];
          parts = (case weather input of
                     None \<Rightarrow> parts
                   | Some w \<Rightarrow>
                       if w = [] then parts
                       else parts @ [''Recommended for '' @ w @ '' weather'']);
          parts = (case mood input of
                     None \<Rightarrow> parts
                   | Some m \<Rightarrow>
                       if m = [] then parts else parts @ [''with a '' @ m @ '' vibe'']);
          parts = (case temperature input of
                     None \<Rightarrow> parts
                   | Some t \<Rightarrow>
                       parts @ [''('' @ numberToString host t
                                @ [CHR 0xB0] @ ''C)''])
      in if length parts = 0 then ''Outfit recommendations based on your wardrobe.''
         else ''Outfit recommendations '' @ join '' '' parts
              @ ''. Mix and match pieces or shuffle for more options.'')"

definition MIN_SCORE_THRESHOLD :: int where
  "MIN_SCORE_THRESHOLD = 60"

text \<open>
  The ranking: a stable sort by descending score (\<open>Array.prototype.sort\<close> is stable, and
  so is \<open>sort_key\<close>), the threshold, and the slice to \<open>limitCount || 6\<close>, where a limit
  of 0 is falsy and gives 6 as an absent one does.
\<close>

definition rankCandidates :: "RecommendationInput \<Rightarrow> OutfitCandidate list \<Rightarrow> OutfitCandidate list" where
  "rankCandidates input candidates =
     slice0 (case limitCount input of None \<Rightarrow> 6 | Some n \<Rightarrow> if n = 0 then 6 else n)
       (filter (\<lambda>candidate. score candidate \<ge> MIN_SCORE_THRESHOLD)
          (sort_key (\<lambda>candidate. - score candidate) candidates))"

text \<open>
  The reasons of an explanation are joined by a blank, the bullet U+2022 and a blank. The
  bullet is the one code unit of the engine's own texts that is not below 256; it is
  written here as the three bytes of its UTF-8 form. The engine never reads an
  explanation back.
\<close>

definition reasonSeparator :: string where
  "reasonSeparator = '' '' @ [CHR 0xE2, CHR 0x80, CHR 0xA2] @ '' ''"

text \<open>
  Each outfit reads the clock twice, once for its id and once for its creation date, in
  the order of the list.
\<close>

definition toOutfit :: "Host \<Rightarrow> RecommendationInput \<Rightarrow> nat \<times> OutfitCandidate \<Rightarrow> Outfit" where
  "toOutfit host input ic =
     (case ic of (index, candidate) \<Rightarrow>
        \<lparr>outfitId = ''outfit-'' @ showInt (clock host (2 * index)) @ ''-'' @ showNat index,
         outfitUserId = userId input,
         outfitGarmentIds = garmentIds candidate,
         contextWeather = weather input,
         contextMood = mood input,
         outfitExplanation = join reasonSeparator (reasons candidate),
         outfitScore = score candidate,
         createdAt = clock host (2 * index + 1)\<rparr>)"

text \<open>\<open>input.mood || "casual"\<close>: an absent or empty mood is replaced by \<open>casual\<close>.\<close>

definition requestMood :: "RecommendationInput \<Rightarrow> string" where
  "requestMood input = (case mood input of None \<Rightarrow> ''casual'' | Some m \<Rightarrow> if m = [] then ''casual'' else m)"

text \<open>The explanations of the three empty results.\<close>

definition emptyWardrobeText :: string where
  "emptyWardrobeText = ''No garments found in wardrobe. Please add items first.''"

definition noSuitableText :: string where
  "noSuitableText = ''No suitable outfits found for the current weather and mood combination.''"

definition noHighQualityText :: string where
  "noHighQualityText =
     ''No high-quality outfit combinations found. Try adjusting your mood, weather, or add more items to your closet.''"

definition generateOutfits :: "Host \<Rightarrow> Garment list \<Rightarrow> RecommendationInput \<Rightarrow> error + RecommendationOutput" where
  "generateOutfits host garments input =
     (if length garments = 0 then
        Inr \<lparr>outfits = [],
             explanation = emptyWardrobeText,
             totalGenerated = 0\<rparr>
      else
        case filterByContext garments input of
          Inl e \<Rightarrow> Inl e
        | Inr filteredGarments \<Rightarrow>
            if length filteredGarments = 0 then
              Inr \<lparr>outfits = [],
                   explanation =
                     noSuitableText,
                   totalGenerated = 0\<rparr>
            else
              (case generateCandidates filteredGarments (requestMood input) of
                 Inl e \<Rightarrow> Inl e
               | Inr candidates \<Rightarrow>
                   (let rankedCandidates = rankCandidates input candidates
                    in if length rankedCandidates = 0 then
                         Inr \<lparr>outfits = [],
                              explanation =
                                noHighQualityText,
                              totalGenerated = 0\<rparr>
                       else
                         (let os = map (toOutfit host input) (enumerate 0 rankedCandidates)
                          in Inr \<lparr>outfits = os,
                                  explanation = generateExplanation host input,
                                  totalGenerated = length os\<rparr>))))"

section \<open>Notions used in the statements\<close>

text \<open>The garments of one category, in the order of the input.\<close>

definition ofCategory :: "GarmentCategory \<Rightarrow> Garment list \<Rightarrow> Garment list" where
  "ofCategory c garments = filter (\<lambda>g. category g = c) garments"

text \<open>
  A small wardrobe for the concrete instances below, taken from the mock garments of the
  recommendation router, a host whose clock ticks once per reading, and a request with no
  context at all.
\<close>

definition linenShirt :: Garment where
  "linenShirt = \<lparr>garmentId = ''g1'', category = Tops, primaryColor = ''blue'',
                  material = Some ''linen'', season = ''summer'',
                  tags = [''casual'', ''breathable'']\<rparr>"

definition skinnyJeans :: Garment where
  "skinnyJeans = \<lparr>garmentId = ''g2'', category = Bottoms, primaryColor = ''black'',
                   material = Some ''denim'', season = ''all-season'',
                   tags = [''versatile'', ''classic'']\<rparr>"

definition whiteSneakers :: Garment where
  "whiteSneakers = \<lparr>garmentId = ''g3'', category = Shoes, primaryColor = ''white'',
                     material = Some ''canvas'', season = ''all-season'',
                     tags = [''casual'', ''comfortable'']\<rparr>"

definition woolSweater :: Garment where
  "woolSweater = \<lparr>garmentId = ''g4'', category = Tops, primaryColor = ''gray'',
                   material = Some ''wool'', season = ''winter'',
                   tags = [''warm'', ''cozy'']\<rparr>"

definition goldNecklace :: Garment where
  "goldNecklace = \<lparr>garmentId = ''g8'', category = Accessories, primaryColor = ''gold'',
                    material = Some ''metal'', season = ''all-season'',
                    tags = [''statement'', ''elegant'']\<rparr>"

definition tickingHost :: Host where
  "tickingHost = \<lparr>clock = (\<lambda>k. 1000 + int k), numberToString = (\<lambda>r. ''?'')\<rparr>"

definition plainRequest :: RecommendationInput where
  "plainRequest = \<lparr>userId = ''user1'', mood = None, weather = None, temperature = None,
                    occasion = None, limitCount = None\<rparr>"

text \<open>
  The material of a garment contains a word case-insensitively: some contiguous piece of
  the material text is the word up to the case of its letters.
\<close>

definition materialHas :: "Garment \<Rightarrow> string \<Rightarrow> bool" where
  "materialHas garment word =
     (\<exists>m piece. material garment = Some m \<and> sublist piece m \<and> toLowerCase piece = word)"

text \<open>
  An outfit without its stamps, and a result of the engine without the stamps of its
  outfits.
\<close>

definition unstamped :: "Outfit \<Rightarrow> Outfit" where
  "unstamped outfit = outfit\<lparr>outfitId := [], createdAt := 0\<rparr>"

definition unstampedResult ::
  "error + RecommendationOutput \<Rightarrow> error + Outfit list \<times> string \<times> nat" where
  "unstampedResult r =
     (case r of
        Inl e \<Rightarrow> Inl e
      | Inr out \<Rightarrow> Inr (map unstamped (outfits out), explanation out, totalGenerated out))"

text \<open>
  The closing description a request's candidates end with, written out: the mood the
  generator runs with is the requested one, or \<open>casual\<close> when none or an empty one is
  given.
\<close>

definition closingFor :: "string option \<Rightarrow> string" where
  "closingFor requested =
     (let m = (case requested of None \<Rightarrow> ''casual'' | Some t \<Rightarrow> if t = [] then ''casual'' else t)
      in if m = ''casual'' then ''Perfect for a relaxed day''
         else if m = ''formal'' then ''Polished and professional''
         else if m = ''adventurous'' then ''Ready for an adventure''
         else if m = ''cozy'' then ''Comfortable and warm''
         else if m = ''energetic'' then ''Energizing and uplifting''
         else if m = ''minimalist'' then ''Clean and simple''
         else if m = ''bold'' then ''Statement-making outfit''
         else ''Well-coordinated look'')"

text \<open>
  The limit as the claim reads it: the requested one, or 6 when none is given; and the
  limit the engine slices to, where a requested 0 counts as none.
\<close>

definition requestedLimit :: "RecommendationInput \<Rightarrow> int" where
  "requestedLimit input = (case limitCount input of None \<Rightarrow> 6 | Some n \<Rightarrow> n)"

definition effectiveLimit :: "RecommendationInput \<Rightarrow> int" where
  "effectiveLimit input = (if requestedLimit input = 0 then 6 else requestedLimit input)"




text \<open>A shoe whose own id is the text the generator's stand-in carries.\<close>

definition barefootSandals :: Garment where
  "barefootSandals = \<lparr>garmentId = ''barefoot'', category = Shoes, primaryColor = ''brown'',
                       material = Some ''leather'', season = ''all-season'',
                       tags = [''casual'']\<rparr>"





section \<open>Properties of the scorer\<close>

lemma map_of_objectPrototype_None:
  "\<not> inheritedName key \<Longrightarrow> map_of objectPrototype key = None"
  unfolding inheritedName_def by (simp add: map_of_eq_None_iff)

lemma recordGet_not_inherited:
  "\<not> inheritedName key \<Longrightarrow>
   recordGet table key = (case map_of table key of Some v \<Rightarrow> Own v | None \<Rightarrow> Undefined)"
  by (simp add: recordGet_def map_of_objectPrototype_None split: option.splits)

lemma foldl_add_nonneg:
  fixes a :: int
  assumes "\<And>x. 0 \<le> f x"
  shows "a \<le> foldl (\<lambda>acc x. acc + f x) a xs"
proof (induction xs arbitrary: a)
  case Nil
  show ?case by simp
next
  case (Cons x xs)
  have "a \<le> a + f x" using assms [of x] by simp
  also have "\<dots> \<le> foldl (\<lambda>acc x. acc + f x) (a + f x) xs" by (rule Cons.IH)
  finally show ?case by simp
qed

lemma moodLoop_nonneg: "0 \<le> moodLoop targetTags garments"
  unfolding moodLoop_def by (rule foldl_add_nonneg) simp


lemma occasionLoop_nonneg: "0 \<le> occasionLoop targetOccasions garments"
  unfolding occasionLoop_def by (rule foldl_add_nonneg) simp

lemma scoreMoodAlignment_range:
  "scoreMoodAlignment garments moodText = Inr s \<Longrightarrow> 0 \<le> s \<and> s \<le> 20"
  using moodLoop_nonneg
  by (auto simp: scoreMoodAlignment_def split: property.splits if_splits)

lemma scoreMoodAlignment_total:
  "\<not> inheritedName moodText \<Longrightarrow> \<exists>s. scoreMoodAlignment garments moodText = Inr s"
  by (simp add: scoreMoodAlignment_def recordGet_not_inherited split: option.splits)

lemma scoreOccasionMatching_range:
  "scoreOccasionMatching garments moodText = Inr s \<Longrightarrow> 0 \<le> s \<and> s \<le> 12"
  using occasionLoop_nonneg
  by (auto simp: scoreOccasionMatching_def split: property.splits if_splits)

lemma scoreOccasionMatching_total:
  "\<not> inheritedName moodText \<Longrightarrow> \<exists>s. scoreOccasionMatching garments moodText = Inr s"
  by (simp add: scoreOccasionMatching_def recordGet_not_inherited split: option.splits)

lemma complementary_nonneg:
  fixes h :: int
  shows "h \<le> foldl (\<lambda>h (color1, color2).
                       if color1 \<in> set colors \<and> color2 \<in> set colors then h + 15 else h)
                    h pairs"
proof (induction pairs arbitrary: h)
  case Nil
  show ?case by simp
next
  case (Cons p ps)
  obtain a b where p: "p = (a, b)" by (cases p)
  show ?case
  proof (cases "a \<in> set colors \<and> b \<in> set colors")
    case True
    have "h \<le> h + 15" by simp
    also have "\<dots> \<le> foldl (\<lambda>h (color1, color2).
                       if color1 \<in> set colors \<and> color2 \<in> set colors then h + 15 else h)
                    (h + 15) ps" by (rule Cons.IH)
    finally show ?thesis using True p by simp
  next
    case False
    then show ?thesis using Cons.IH [of h] p by auto
  qed
qed

lemma scoreColorHarmony_range: "0 \<le> scoreColorHarmony garments \<and> scoreColorHarmony garments \<le> 20"
proof -
  let ?colors = "map (\<lambda>g. toLowerCase (primaryColor g)) garments"
  have "0 \<le> foldl (\<lambda>h (color1, color2).
                       if color1 \<in> set ?colors \<and> color2 \<in> set ?colors then h + 15 else h)
                    (0::int) complementaryPairs"
    by (rule complementary_nonneg)
  then show ?thesis
    by (simp add: scoreColorHarmony_def Let_def)
qed

lemma scoreStyleCoherence_range:
  "0 \<le> scoreStyleCoherence garments \<and> scoreStyleCoherence garments \<le> 15"
  by (simp add: scoreStyleCoherence_def Let_def)

lemma versatility_nonneg:
  fixes v :: int
  shows "v \<le> foldl (\<lambda>versatilityScore garment.
                   if ''versatile-high'' \<in> set (tags garment) then versatilityScore + 2
                   else if ''versatile-medium'' \<in> set (tags garment) then versatilityScore + 1
                   else versatilityScore) v garments"
proof (induction garments arbitrary: v)
  case Nil
  show ?case by simp
next
  case (Cons g gs)
  show ?case
    using Cons.IH [of "v + 2"] Cons.IH [of "v + 1"] Cons.IH [of v] by auto
qed

lemma scoreVersatility_range: "0 \<le> scoreVersatility garments \<and> scoreVersatility garments \<le> 8"
  using versatility_nonneg [of 0 garments] by (simp add: scoreVersatility_def)

lemma scoreDiversity_range: "5 \<le> scoreDiversity garments \<and> scoreDiversity garments \<le> 10"
  by (simp add: scoreDiversity_def)

lemma scoreOutfit_Inr_range:
  assumes "scoreOutfit garments moodText allGarments = Inr s"
  shows "50 \<le> s \<and> s \<le> 100"
proof -
  from assms obtain m oc where m: "scoreMoodAlignment garments moodText = Inr m"
    and oc: "scoreOccasionMatching garments moodText = Inr oc"
    and s: "s = min (50 + scoreColorHarmony garments + m + scoreStyleCoherence garments + oc
                      + scoreVersatility garments + scoreDiversity garments) 100"
    by (auto simp: scoreOutfit_def Let_def split: sum.splits)
  show ?thesis
    using scoreMoodAlignment_range [OF m] scoreOccasionMatching_range [OF oc]
      scoreColorHarmony_range [of garments] scoreStyleCoherence_range [of garments]
      scoreVersatility_range [of garments] scoreDiversity_range [of garments]
    unfolding s by linarith
qed

lemma scoreOutfit_total:
  assumes "\<not> inheritedName moodText"
  shows "\<exists>s. scoreOutfit garments moodText allGarments = Inr s"
proof -
  obtain m where m: "scoreMoodAlignment garments moodText = Inr m"
    using scoreMoodAlignment_total [OF assms] by blast
  obtain oc where oc: "scoreOccasionMatching garments moodText = Inr oc"
    using scoreOccasionMatching_total [OF assms] by blast
  show ?thesis by (simp add: scoreOutfit_def Let_def m oc)
qed

section \<open>Properties of the generator\<close>

lemma groupByCategory_step:
  "(let grouped = (if m (category g) = None then m(category g \<mapsto> []) else m)
    in (case grouped (category g) of
          Some gs \<Rightarrow> grouped(category g \<mapsto> gs @ [g])
        | None \<Rightarrow> grouped))
   = m(category g \<mapsto> getOrEmpty m (category g) @ [g])"
  by (auto simp: getOrEmpty_def Let_def split: option.splits)

lemma getOrEmpty_foldl:
  fixes step :: "(GarmentCategory \<rightharpoonup> Garment list) \<Rightarrow> Garment \<Rightarrow> (GarmentCategory \<rightharpoonup> Garment list)"
  defines "step \<equiv> \<lambda>grouped garment.
             grouped(category garment \<mapsto> getOrEmpty grouped (category garment) @ [garment])"
  shows "getOrEmpty (foldl step m gs) c = getOrEmpty m c @ filter (\<lambda>g. category g = c) gs"
proof (induction gs arbitrary: m)
  case Nil
  show ?case by simp
next
  case (Cons g gs)
  have "getOrEmpty (foldl step (step m g) gs) c
        = getOrEmpty (step m g) c @ filter (\<lambda>g. category g = c) gs"
    by (rule Cons.IH)
  moreover have "getOrEmpty (step m g) c = getOrEmpty m c @ (if category g = c then [g] else [])"
    by (simp add: step_def getOrEmpty_def)
  ultimately show ?case by simp
qed

lemma getOrEmpty_groupByCategory:
  "getOrEmpty (groupByCategory gs) c = filter (\<lambda>g. category g = c) gs"
proof -
  have "groupByCategory gs
        = foldl (\<lambda>grouped garment.
                   grouped(category garment \<mapsto> getOrEmpty grouped (category garment) @ [garment]))
                Map.empty gs"
    unfolding groupByCategory_def groupByCategory_step ..
  moreover have "getOrEmpty Map.empty c = []"
    by (simp add: getOrEmpty_def)
  ultimately show ?thesis
    using getOrEmpty_foldl [of Map.empty gs c] by simp
qed

lemma forEach_elem:
  "forEach xs body = Inr ys \<Longrightarrow> y \<in> set ys \<Longrightarrow>
   \<exists>x zs. x \<in> set xs \<and> body x = Inr zs \<and> y \<in> set zs"
proof (induction xs arbitrary: ys)
  case Nil
  then show ?case by simp
next
  case (Cons x xs)
  from Cons.prems(1) obtain pushed rest where p: "body x = Inr pushed"
    and r: "forEach xs body = Inr rest" and ys: "ys = pushed @ rest"
    by (auto split: sum.splits)
  from Cons.prems(2) ys consider "y \<in> set pushed" | "y \<in> set rest" by auto
  then show ?case
  proof cases
    case 1
    with p show ?thesis by auto
  next
    case 2
    from Cons.IH [OF r 2] show ?thesis by auto
  qed
qed

lemma filterE_Inr:
  "filterE p xs = Inr ys \<Longrightarrow> ys = filter (\<lambda>x. p x = Inr True) xs"
proof (induction xs arbitrary: ys)
  case Nil
  then show ?case by simp
next
  case (Cons x xs)
  then show ?case by (auto split: sum.splits if_splits)
qed


lemma shoeCandidate_Inr:
  assumes "shoeCandidate garments moodText topG bottomG shoe = Inr zs"
  shows "\<exists>ss sc. ss = (if garmentId shoe = ''barefoot'' then [] else [shoe])
           \<and> scoreOutfit ([topG, bottomG] @ ss) moodText garments = Inr sc
           \<and> zs = [\<lparr>garmentIds = map garmentId ([topG, bottomG] @ ss), score = sc,
                    reasons = generateReasons ([topG, bottomG] @ ss) moodText\<rparr>]"
  using assms by (auto simp: shoeCandidate_def Let_def split: sum.splits if_splits)

lemma accessoryCandidate_Inr:
  assumes "accessoryCandidate garments moodText shoes topG bottomG accessory = Inr zs"
  shows "\<exists>sc. scoreOutfit ([topG, bottomG] @ take 1 shoes @ [accessory]) moodText garments = Inr sc
           \<and> zs = [\<lparr>garmentIds = map garmentId ([topG, bottomG] @ take 1 shoes @ [accessory]),
                    score = sc,
                    reasons = generateReasons ([topG, bottomG] @ take 1 shoes @ [accessory]) moodText\<rparr>]"
proof -
  have ids: "(if length shoes > 0 then [garmentId topG, garmentId bottomG] @ [garmentId (shoes ! 0)]
              else [garmentId topG, garmentId bottomG]) @ [garmentId accessory]
             = map garmentId ([topG, bottomG] @ take 1 shoes @ [accessory])"
    by (cases shoes) simp_all
  show ?thesis
    using assms unfolding accessoryCandidate_def Let_def ids
    by (auto split: sum.splits)
qed

lemma getOrEmpty_ofCategory: "getOrEmpty (groupByCategory gs) c = ofCategory c gs"
  by (simp add: getOrEmpty_groupByCategory ofCategory_def)

lemma pairCandidates_elem:
  assumes "pairCandidates garments moodText (groupByCategory garments) (ofCategory Shoes garments) topG bottomG = Inr zs"
    and "c \<in> set zs"
  shows "\<exists>ss as. set ss \<subseteq> set (ofCategory Shoes garments) \<and> length ss \<le> 1
           \<and> set as \<subseteq> set (ofCategory Accessories garments) \<and> length as \<le> 1
           \<and> scoreOutfit ([topG, bottomG] @ ss @ as) moodText garments = Inr (score c)
           \<and> garmentIds c = map garmentId ([topG, bottomG] @ ss @ as)
           \<and> reasons c = generateReasons ([topG, bottomG] @ ss @ as) moodText"
proof -
  let ?shoes = "ofCategory Shoes garments"
  let ?accs = "ofCategory Accessories garments"
  let ?toTry = "if ?shoes \<noteq> [] then ?shoes else [barefoot]"
  from assms(1) obtain ws wa where
    ws: "forEach ?toTry (shoeCandidate garments moodText topG bottomG) = Inr ws"
    and wa: "forEach (take 2 ?accs) (accessoryCandidate garments moodText ?shoes topG bottomG) = Inr wa"
    and zs: "zs = ws @ wa"
    by (auto simp: pairCandidates_def Let_def getOrEmpty_ofCategory split: sum.splits)
  from assms(2) zs consider "c \<in> set ws" | "c \<in> set wa" by auto
  then show ?thesis
  proof cases
    case 1
    from forEach_elem [OF ws 1] obtain shoe ys where shoe: "shoe \<in> set ?toTry"
      and ys: "shoeCandidate garments moodText topG bottomG shoe = Inr ys" and c: "c \<in> set ys"
      by blast
    from shoeCandidate_Inr [OF ys] obtain sc where
      sc: "scoreOutfit ([topG, bottomG] @ (if garmentId shoe = ''barefoot'' then [] else [shoe])) moodText garments = Inr sc"
      and ys': "ys = [\<lparr>garmentIds = map garmentId ([topG, bottomG] @ (if garmentId shoe = ''barefoot'' then [] else [shoe])),
                       score = sc,
                       reasons = generateReasons ([topG, bottomG] @ (if garmentId shoe = ''barefoot'' then [] else [shoe])) moodText\<rparr>]"
      by blast
    let ?ss = "if garmentId shoe = ''barefoot'' then [] else [shoe]"
    have "set ?ss \<subseteq> set ?shoes"
      using shoe by (auto simp: barefoot_def split: if_splits)
    moreover have "length ?ss \<le> 1" by simp
    moreover have "scoreOutfit ([topG, bottomG] @ ?ss @ []) moodText garments = Inr (score c)"
      using sc c ys' by simp
    moreover have "garmentIds c = map garmentId ([topG, bottomG] @ ?ss @ [])"
      using c ys' by simp
    moreover have "reasons c = generateReasons ([topG, bottomG] @ ?ss @ []) moodText"
      using c ys' by simp
    ultimately show ?thesis
      by (intro exI [of _ ?ss] exI [of _ "[]"]) simp
  next
    case 2
    from forEach_elem [OF wa 2] obtain acc ys where acc: "acc \<in> set (take 2 ?accs)"
      and ys: "accessoryCandidate garments moodText ?shoes topG bottomG acc = Inr ys" and c: "c \<in> set ys"
      by blast
    from accessoryCandidate_Inr [OF ys] obtain sc where
      sc: "scoreOutfit ([topG, bottomG] @ take 1 ?shoes @ [acc]) moodText garments = Inr sc"
      and ys': "ys = [\<lparr>garmentIds = map garmentId ([topG, bottomG] @ take 1 ?shoes @ [acc]),
                       score = sc,
                       reasons = generateReasons ([topG, bottomG] @ take 1 ?shoes @ [acc]) moodText\<rparr>]"
      by blast
    have "set (take 1 ?shoes) \<subseteq> set ?shoes" by (rule set_take_subset)
    moreover have "length (take 1 ?shoes) \<le> 1" by simp
    moreover have "set [acc] \<subseteq> set ?accs" using acc set_take_subset [of 2 ?accs] by auto
    moreover have "scoreOutfit ([topG, bottomG] @ take 1 ?shoes @ [acc]) moodText garments = Inr (score c)"
      using sc c ys' by simp
    moreover have "garmentIds c = map garmentId ([topG, bottomG] @ take 1 ?shoes @ [acc])"
      using c ys' by simp
    moreover have "reasons c = generateReasons ([topG, bottomG] @ take 1 ?shoes @ [acc]) moodText"
      using c ys' by simp
    ultimately show ?thesis
      by (intro exI [of _ "take 1 ?shoes"] exI [of _ "[acc]"]) simp
  qed
qed

lemma generateCandidates_unfold:
  "generateCandidates garments moodText =
     (if ofCategory Tops garments = [] \<or> ofCategory Bottoms garments = [] then Inr []
      else forEach (ofCategory Tops garments) (\<lambda>topG.
             forEach (ofCategory Bottoms garments) (\<lambda>bottomG.
               pairCandidates garments moodText (groupByCategory garments)
                 (ofCategory Shoes garments) topG bottomG)))"
  by (simp add: generateCandidates_def Let_def getOrEmpty_ofCategory)

lemma generateCandidates_elem:
  assumes "generateCandidates garments moodText = Inr cs" and "c \<in> set cs"
  shows "\<exists>topG bottomG ss as.
           topG \<in> set (ofCategory Tops garments) \<and> bottomG \<in> set (ofCategory Bottoms garments)
           \<and> set ss \<subseteq> set (ofCategory Shoes garments) \<and> length ss \<le> 1
           \<and> set as \<subseteq> set (ofCategory Accessories garments) \<and> length as \<le> 1
           \<and> scoreOutfit ([topG, bottomG] @ ss @ as) moodText garments = Inr (score c)
           \<and> garmentIds c = map garmentId ([topG, bottomG] @ ss @ as)
           \<and> reasons c = generateReasons ([topG, bottomG] @ ss @ as) moodText"
proof -
  let ?inner = "\<lambda>topG. forEach (ofCategory Bottoms garments) (\<lambda>bottomG.
               pairCandidates garments moodText (groupByCategory garments)
                 (ofCategory Shoes garments) topG bottomG)"
  from assms have run: "forEach (ofCategory Tops garments) ?inner = Inr cs"
    by (auto simp: generateCandidates_unfold split: if_splits)
  from forEach_elem [OF run assms(2)] obtain topG ys where
    t: "topG \<in> set (ofCategory Tops garments)" and ys: "?inner topG = Inr ys" and cy: "c \<in> set ys"
    by blast
  from forEach_elem [OF ys cy] obtain bottomG zs where
    b: "bottomG \<in> set (ofCategory Bottoms garments)"
    and zs: "pairCandidates garments moodText (groupByCategory garments)
               (ofCategory Shoes garments) topG bottomG = Inr zs"
    and cz: "c \<in> set zs"
    by blast
  from pairCandidates_elem [OF zs cz] t b show ?thesis by blast
qed

lemma includesStr_iff_sublist: "includesStr hay needle \<longleftrightarrow> sublist needle hay"
  by (induction hay) (simp_all add: sublist_Cons_right)

lemma sublist_map_iff:
  "sublist w (map f m) \<longleftrightarrow> (\<exists>piece. sublist piece m \<and> map f piece = w)"
proof
  assume "sublist w (map f m)"
  then obtain ps ss where "map f m = ps @ w @ ss" by (auto simp: sublist_def)
  then obtain a r where a: "m = a @ r" and r: "map f r = w @ ss"
    by (metis map_eq_append_conv)
  from r obtain b c where "r = b @ c" and "map f b = w"
    by (metis map_eq_append_conv)
  with a have "m = a @ b @ c" and "map f b = w" by simp_all
  then show "\<exists>piece. sublist piece m \<and> map f piece = w" by auto
next
  assume "\<exists>piece. sublist piece m \<and> map f piece = w"
  then show "sublist w (map f m)" using map_mono_sublist by blast
qed

lemma includesStr_material:
  assumes "word \<noteq> []"
  shows "includesStr (case material garment of Some m \<Rightarrow> toLowerCase m | None \<Rightarrow> []) word
         \<longleftrightarrow> materialHas garment word"
proof (cases "material garment")
  case None
  with assms show ?thesis by (simp add: materialHas_def)
next
  case (Some m)
  then show ?thesis
    by (simp add: materialHas_def includesStr_iff_sublist toLowerCase_def sublist_map_iff)
qed

section \<open>Properties of the engine\<close>

lemma generateOutfits_Inr:
  assumes "generateOutfits host gs input = Inr out"
  obtains
    (emptyWardrobe) "gs = []"
      and "out = \<lparr>outfits = [],
                   explanation = emptyWardrobeText,
                   totalGenerated = 0\<rparr>"
  | (noSurvivor) "gs \<noteq> []" and "filterByContext gs input = Inr []"
      and "out = \<lparr>outfits = [],
                   explanation =
                     noSuitableText,
                   totalGenerated = 0\<rparr>"
  | (noneRanked) fg cs where "gs \<noteq> []" and "filterByContext gs input = Inr fg" and "fg \<noteq> []"
      and "generateCandidates fg (requestMood input) = Inr cs"
      and "rankCandidates input cs = []"
      and "out = \<lparr>outfits = [],
                   explanation =
                     noHighQualityText,
                   totalGenerated = 0\<rparr>"
  | (ranked) fg cs where "gs \<noteq> []" and "filterByContext gs input = Inr fg" and "fg \<noteq> []"
      and "generateCandidates fg (requestMood input) = Inr cs"
      and "rankCandidates input cs \<noteq> []"
      and "out = \<lparr>outfits = map (toOutfit host input) (enumerate 0 (rankCandidates input cs)),
                   explanation = generateExplanation host input,
                   totalGenerated = length (rankCandidates input cs)\<rparr>"
proof (cases "gs = []")
  case True
  with assms emptyWardrobe show ?thesis by (simp add: generateOutfits_def)
next
  case False
  with assms obtain fg where fg: "filterByContext gs input = Inr fg"
    by (cases "filterByContext gs input") (simp_all add: generateOutfits_def)
  show ?thesis
  proof (cases "fg = []")
    case True
    with assms False fg noSurvivor show ?thesis by (simp add: generateOutfits_def)
  next
    case nonempty: False
    with assms False fg obtain cs where cs: "generateCandidates fg (requestMood input) = Inr cs"
      by (cases "generateCandidates fg (requestMood input)") (simp_all add: generateOutfits_def)
    show ?thesis
    proof (cases "rankCandidates input cs = []")
      case True
      with assms False fg nonempty cs noneRanked show ?thesis
        by (simp add: generateOutfits_def)
    next
      case someRanked: False
      have "out = \<lparr>outfits = map (toOutfit host input) (enumerate 0 (rankCandidates input cs)),
                   explanation = generateExplanation host input,
                   totalGenerated = length (rankCandidates input cs)\<rparr>"
        using assms False fg nonempty cs someRanked by (simp add: generateOutfits_def Let_def)
      with False fg nonempty cs someRanked ranked show ?thesis by blast
    qed
  qed
qed

lemma generateExplanation_clock:
  "generateExplanation (host\<lparr>clock := c\<rparr>) input = generateExplanation host input"
proof -
  have "numberToString (host\<lparr>clock := c\<rparr>) = numberToString host" by simp
  then show ?thesis unfolding generateExplanation_def by (simp only:)
qed

lemma unstamped_toOutfit_clock:
  "unstamped (toOutfit (host\<lparr>clock := c\<rparr>) input ic) = unstamped (toOutfit host input ic)"
  by (cases ic) (simp add: unstamped_def toOutfit_def)

lemma unstampedResult_clock:
  "unstampedResult (generateOutfits (host\<lparr>clock := c\<rparr>) gs input)
   = unstampedResult (generateOutfits host gs input)"
  by (simp add: unstampedResult_def generateOutfits_def Let_def generateExplanation_clock
        unstamped_toOutfit_clock split: sum.splits)

lemma filterByContext_subset:
  "filterByContext gs input = Inr fg \<Longrightarrow> set fg \<subseteq> set gs"
  unfolding filterByContext_def by (drule filterE_Inr) auto

lemma slice0_subset: "set (slice0 n xs) \<subseteq> set xs"
  by (simp add: slice0_def set_take_subset)

lemma rankCandidates_subset: "set (rankCandidates input cs) \<subseteq> set cs"
proof -
  have "set (rankCandidates input cs)
        \<subseteq> set (filter (\<lambda>candidate. score candidate \<ge> MIN_SCORE_THRESHOLD)
                  (sort_key (\<lambda>candidate. - score candidate) cs))"
    unfolding rankCandidates_def by (rule slice0_subset)
  then show ?thesis by auto
qed

lemma outfit_from_candidate:
  assumes "generateOutfits host gs input = Inr out" and "outfit \<in> set (outfits out)"
  obtains fg cs c index where "filterByContext gs input = Inr fg"
    and "generateCandidates fg (requestMood input) = Inr cs"
    and "c \<in> set cs" and "outfit = toOutfit host input (index, c)"
  using assms(1)
proof (cases rule: generateOutfits_Inr)
  case emptyWardrobe
  with assms(2) show ?thesis by simp
next
  case noSurvivor
  with assms(2) show ?thesis by simp
next
  case (noneRanked fg cs)
  with assms(2) show ?thesis by simp
next
  case (ranked fg cs)
  with assms(2) obtain index c where ic: "(index, c) \<in> set (enumerate 0 (rankCandidates input cs))"
    and o: "outfit = toOutfit host input (index, c)"
    by auto
  from ic have "c \<in> set (rankCandidates input cs)"
    by (auto simp: in_set_enumerate_eq)
  with rankCandidates_subset have "c \<in> set cs" by blast
  with ranked o that show ?thesis by blast
qed

lemma set_ofCategory: "set (ofCategory c gs) = {g \<in> set gs. category g = c}"
  by (auto simp: ofCategory_def)

lemma inherited_not_mood: "inheritedName moodText \<Longrightarrow> map_of moodTags moodText = None"
  unfolding inheritedName_def objectPrototype_def moodTags_def
  by (elim disjE | simp)+

lemma scoreMoodAlignment_inherited:
  assumes "inheritedName moodText" and "garments \<noteq> []"
  shows "scoreMoodAlignment garments moodText = Inl TypeError"
proof -
  from assms(1) have "map_of objectPrototype moodText \<noteq> None"
    unfolding inheritedName_def by (simp add: map_of_eq_None_iff)
  then obtain len tx where "map_of objectPrototype moodText = Some (len, tx)" by auto
  with inherited_not_mood [OF assms(1)] have "recordGet moodTags moodText = Inherited len tx"
    by (simp add: recordGet_def)
  with assms(2) show ?thesis by (simp add: scoreMoodAlignment_def)
qed

lemma scoreOutfit_inherited:
  assumes "inheritedName moodText" and "garments \<noteq> []"
  shows "scoreOutfit garments moodText allGarments = Inl TypeError"
  by (simp add: scoreOutfit_def Let_def scoreMoodAlignment_inherited [OF assms])

lemma closingDescription_known:
  assumes "\<not> inheritedName moodText"
  shows "closingDescription moodText = closingFor (Some moodText) \<or> moodText = []"
proof (cases "moodText = []")
  case True
  then show ?thesis by simp
next
  case False
  have "recordGet moodDescriptions moodText
        = (case map_of moodDescriptions moodText of Some v \<Rightarrow> Own v | None \<Rightarrow> Undefined)"
    using assms by (rule recordGet_not_inherited)
  then have "closingDescription moodText = closingFor (Some moodText)"
    using False by (simp add: closingDescription_def closingFor_def moodDescriptions_def)
  then show ?thesis ..
qed

lemma closingDescription_requestMood:
  assumes "\<not> inheritedName (requestMood input)"
  shows "closingDescription (requestMood input) = closingFor (mood input)"
proof -
  have ne: "requestMood input \<noteq> []"
    by (simp add: requestMood_def split: option.splits)
  have same: "closingFor (Some (requestMood input)) = closingFor (mood input)"
    by (simp add: closingFor_def requestMood_def split: option.splits)
  from closingDescription_known [OF assms] ne same show ?thesis by simp
qed

lemma generateReasons_snoc:
  "\<exists>before. generateReasons garments moodText = before @ [closingDescription moodText]"
  unfolding generateReasons_def Let_def by (rule exI) (rule refl)

lemma rankCandidates_Nil: "rankCandidates input [] = []"
  by (simp add: rankCandidates_def slice0_def)

lemma generateCandidates_no_pair:
  "ofCategory Tops fg = [] \<or> ofCategory Bottoms fg = [] \<Longrightarrow> generateCandidates fg moodText = Inr []"
  by (simp add: generateCandidates_unfold)

lemma rankCandidates_eq:
  assumes "0 \<le> requestedLimit input"
  shows "rankCandidates input cs
         = take (nat (effectiveLimit input))
             (filter (\<lambda>c. 60 \<le> score c) (sort_key (\<lambda>c. - score c) cs))"
proof -
  have "(case limitCount input of None \<Rightarrow> 6 | Some n \<Rightarrow> if n = 0 then 6 else n)
        = effectiveLimit input"
    by (simp add: effectiveLimit_def requestedLimit_def split: option.splits)
  moreover have "0 \<le> effectiveLimit input"
    using assms by (simp add: effectiveLimit_def)
  ultimately show ?thesis
    by (simp add: rankCandidates_def slice0_def MIN_SCORE_THRESHOLD_def)
qed

lemma outfitScore_toOutfit: "outfitScore (toOutfit host input ic) = score (snd ic)"
  by (cases ic) (simp add: toOutfit_def)

lemma scores_of_outfits:
  "map outfitScore (map (toOutfit host input) (enumerate n cs)) = map score cs"
  by (induction cs arbitrary: n) (simp_all add: outfitScore_toOutfit)

lemma ranked_scores_descending:
  "sorted_wrt (\<lambda>a b. score b \<le> score a)
     (take k (filter P (sort_key (\<lambda>c. - score c) cs)))"
proof -
  have "sorted (map (\<lambda>c. - score c) (sort_key (\<lambda>c. - score c) cs))"
    by (rule sorted_sort_key)
  then have "sorted_wrt (\<lambda>a b. score b \<le> score a) (sort_key (\<lambda>c. - score c) cs)"
    by (simp add: sorted_map)
  then have "sorted_wrt (\<lambda>a b. score b \<le> score a) (filter P (sort_key (\<lambda>c. - score c) cs))"
    by (rule sorted_wrt_filter)
  then show ?thesis by (rule sorted_wrt_take)
qed






















section \<open>The claims\<close>

text \<open>
  C1, as amended. When the filter leaves garments and the generator returns its
  candidates, the returned outfits are the candidates sorted by descending score (stably,
  ties in the order of generation), without those scoring below 60, truncated to the
  limit, each made into an outfit; the limit is the requested one when it is positive and
  6 when none is given or 0 is requested. So every returned outfit scores at least 60,
  the scores do not increase along the list, and the list is no longer than that limit.
\<close>

theorem ranked_outfits:
  assumes "generateOutfits host garments input = Inr out"
    and "filterByContext garments input = Inr filteredGarments"
    and "filteredGarments \<noteq> []"
    and "generateCandidates filteredGarments (requestMood input) = Inr candidates"
    and "0 \<le> requestedLimit input"
  shows "outfits out
         = map (toOutfit host input)
             (enumerate 0
               (take (nat (effectiveLimit input))
                 (filter (\<lambda>c. 60 \<le> score c) (sort_key (\<lambda>c. - score c) candidates))))
         \<and> list_all (\<lambda>outfit. 60 \<le> outfitScore outfit) (outfits out)
         \<and> sorted_wrt (\<lambda>a b. b \<le> a) (map outfitScore (outfits out))
         \<and> length (outfits out) \<le> nat (effectiveLimit input)"
proof -
  let ?ranked = "take (nat (effectiveLimit input))
                   (filter (\<lambda>c. 60 \<le> score c) (sort_key (\<lambda>c. - score c) candidates))"
  have r: "rankCandidates input candidates = ?ranked"
    using assms(5) by (rule rankCandidates_eq)
  have eq: "outfits out = map (toOutfit host input) (enumerate 0 ?ranked)"
    using assms(1)
  proof (cases rule: generateOutfits_Inr)
    case emptyWardrobe
    with assms(2,3) show ?thesis by (simp add: filterByContext_def)
  next
    case noSurvivor
    with assms(2,3) show ?thesis by simp
  next
    case (noneRanked fg cs)
    from noneRanked(2,4) assms(2,4) have "cs = candidates" by simp
    with noneRanked(5) r have "?ranked = []" by (simp only:)
    then have "map (toOutfit host input) (enumerate 0 ?ranked) = []"
      by (simp only: enumerate_simps list.map)
    moreover have "outfits out = []" using noneRanked(6) by simp
    ultimately show ?thesis by (simp only:)
  next
    case (ranked fg cs)
    from ranked(2,4) assms(2,4) have "cs = candidates" by simp
    with r have "rankCandidates input cs = ?ranked" by (simp only:)
    moreover have "outfits out = map (toOutfit host input) (enumerate 0 (rankCandidates input cs))"
      using ranked(6) by simp
    ultimately show ?thesis by (simp only:)
  qed
  have scores: "map outfitScore (outfits out) = map score ?ranked"
    unfolding eq by (rule scores_of_outfits)
  have "list_all (\<lambda>s. 60 \<le> s) (map score ?ranked)"
    by (auto simp: list_all_iff dest: in_set_takeD)
  then have "list_all (\<lambda>s. 60 \<le> s) (map outfitScore (outfits out))"
    by (simp only: scores)
  then have threshold: "list_all (\<lambda>outfit. 60 \<le> outfitScore outfit) (outfits out)"
    by (simp add: list_all_iff)
  have "sorted_wrt (\<lambda>a b. b \<le> a) (map score ?ranked)"
    unfolding sorted_wrt_map by (rule ranked_scores_descending)
  then have descending: "sorted_wrt (\<lambda>a b. b \<le> a) (map outfitScore (outfits out))"
    by (simp only: scores)
  have "length (outfits out) = length ?ranked"
    unfolding eq by simp
  then have len: "length (outfits out) \<le> nat (effectiveLimit input)"
    by simp
  from eq threshold descending len show ?thesis by (intro conjI)
qed

theorem ranked_outfits_witness:
  "\<exists>out candidates.
     generateOutfits tickingHost [woolSweater, linenShirt, skinnyJeans]
       (plainRequest\<lparr>limitCount := Some 1\<rparr>) = Inr out
     \<and> filterByContext [woolSweater, linenShirt, skinnyJeans]
         (plainRequest\<lparr>limitCount := Some 1\<rparr>) = Inr [woolSweater, linenShirt, skinnyJeans]
     \<and> [woolSweater, linenShirt, skinnyJeans] \<noteq> []
     \<and> generateCandidates [woolSweater, linenShirt, skinnyJeans]
         (requestMood (plainRequest\<lparr>limitCount := Some 1\<rparr>)) = Inr candidates
     \<and> 0 \<le> requestedLimit (plainRequest\<lparr>limitCount := Some 1\<rparr>)
     \<and> map (\<lambda>c. (garmentIds c, score c)) candidates
         = [([''g4'', ''g2''], 71), ([''g1'', ''g2''], 73)]
     \<and> effectiveLimit (plainRequest\<lparr>limitCount := Some 1\<rparr>) = 1
     \<and> outfits out
         = map (toOutfit tickingHost (plainRequest\<lparr>limitCount := Some 1\<rparr>))
             (enumerate 0
               (take (nat (effectiveLimit (plainRequest\<lparr>limitCount := Some 1\<rparr>)))
                 (filter (\<lambda>c. 60 \<le> score c) (sort_key (\<lambda>c. - score c) candidates))))
     \<and> map (\<lambda>outfit. (outfitGarmentIds outfit, outfitScore outfit)) (outfits out)
         = [([''g1'', ''g2''], 73)]
     \<and> list_all (\<lambda>outfit. 60 \<le> outfitScore outfit) (outfits out)
     \<and> sorted_wrt (\<lambda>a b. b \<le> a) (map outfitScore (outfits out))
     \<and> length (outfits out) \<le> nat (effectiveLimit (plainRequest\<lparr>limitCount := Some 1\<rparr>))"
proof -
  let ?gs = "[woolSweater, linenShirt, skinnyJeans]"
  let ?input = "plainRequest\<lparr>limitCount := Some 1\<rparr>"
  have f: "filterByContext ?gs ?input = Inr ?gs" by code_simp
  have ne: "?gs \<noteq> []" by simp
  have "(case generateCandidates ?gs (requestMood ?input) of
           Inl e \<Rightarrow> None | Inr cs \<Rightarrow> Some (map (\<lambda>c. (garmentIds c, score c)) cs))
        = Some [([''g4'', ''g2''], 71), ([''g1'', ''g2''], 73)]"
    by code_simp
  then obtain cs where g: "generateCandidates ?gs (requestMood ?input) = Inr cs"
    and sc: "map (\<lambda>c. (garmentIds c, score c)) cs
             = [([''g4'', ''g2''], 71), ([''g1'', ''g2''], 73)]"
    by (auto split: sum.splits)
  have "(case generateOutfits tickingHost ?gs ?input of
           Inl e \<Rightarrow> None
         | Inr out \<Rightarrow> Some (map (\<lambda>outfit. (outfitGarmentIds outfit, outfitScore outfit))
                               (outfits out)))
        = Some [([''g1'', ''g2''], 73)]"
    by code_simp
  then obtain out where run: "generateOutfits tickingHost ?gs ?input = Inr out"
    and res: "map (\<lambda>outfit. (outfitGarmentIds outfit, outfitScore outfit)) (outfits out)
              = [([''g1'', ''g2''], 73)]"
    by (auto split: sum.splits)
  have lim: "0 \<le> requestedLimit ?input"
    by (simp add: requestedLimit_def plainRequest_def)
  have eff: "effectiveLimit ?input = 1"
    by (simp add: effectiveLimit_def requestedLimit_def plainRequest_def)
  note all = ranked_outfits [OF run f ne g lim]
  have c: "outfits out
         = map (toOutfit tickingHost ?input)
             (enumerate 0
               (take (nat (effectiveLimit ?input))
                 (filter (\<lambda>c. 60 \<le> score c) (sort_key (\<lambda>c. - score c) cs))))"
    "list_all (\<lambda>outfit. 60 \<le> outfitScore outfit) (outfits out)"
    "sorted_wrt (\<lambda>a b. b \<le> a) (map outfitScore (outfits out))"
    "length (outfits out) \<le> nat (effectiveLimit ?input)"
    by (rule all [THEN conjunct1],
        rule all [THEN conjunct2, THEN conjunct1],
        rule all [THEN conjunct2, THEN conjunct2, THEN conjunct1],
        rule all [THEN conjunct2, THEN conjunct2, THEN conjunct2])
  show ?thesis
    by (intro exI [of _ out] exI [of _ cs] conjI run f ne g lim sc eff c(1) res c(2) c(3) c(4))
qed

theorem ranked_outfits_counterexample:
  "requestedLimit (plainRequest\<lparr>limitCount := Some 0\<rparr>) = 0
   \<and> (case generateOutfits tickingHost [linenShirt, skinnyJeans]
              (plainRequest\<lparr>limitCount := Some 0\<rparr>) of
         Inl e \<Rightarrow> None
       | Inr out \<Rightarrow> Some (length (outfits out)))
      = Some 1
   \<and> \<not> (1::nat) \<le> nat 0"
  by code_simp

text \<open>
  C2. For every list of garments and every mood, a score that \<open>scoreOutfit\<close> returns
  is an integer between 50 and 100; and it does return one for every mood of the
  enumeration, indeed for every mood text that is not the name of a property inherited
  from \<open>Object.prototype\<close>.
\<close>

theorem scoreOutfit_bounds:
  "(\<forall>s. scoreOutfit garments moodText allGarments = Inr s \<longrightarrow> 50 \<le> s \<and> s \<le> 100)
   \<and> (\<not> inheritedName moodText \<longrightarrow> (\<exists>s. scoreOutfit garments moodText allGarments = Inr s))"
  using scoreOutfit_Inr_range scoreOutfit_total by blast

theorem scoreOutfit_bounds_witness:
  "\<not> inheritedName ''cozy''
   \<and> (\<exists>s. scoreOutfit [woolSweater, skinnyJeans] ''cozy'' [woolSweater, skinnyJeans] = Inr s
            \<and> 50 \<le> s \<and> s \<le> 100)"
proof -
  have h: "\<not> inheritedName ''cozy''"
    by (simp add: inheritedName_def objectPrototype_def)
  from scoreOutfit_bounds [of "[woolSweater, skinnyJeans]" "''cozy''" "[woolSweater, skinnyJeans]"] h
  show ?thesis by blast
qed

text \<open>
  C3, as amended. When garments survive the context filter but there is no top or no
  bottom among the survivors, the engine returns no outfits, a total of 0 and the
  explanation of the ranking stage, \<open>No high-quality outfit combinations found\<close>: the one
  it gives when no candidate reaches the threshold, and a text different from the
  explanation of an empty wardrobe and from the one of an empty filter result.
\<close>

theorem no_pair_outcome:
  assumes "filterByContext garments input = Inr filteredGarments"
    and "filteredGarments \<noteq> []"
    and "ofCategory Tops filteredGarments = [] \<or> ofCategory Bottoms filteredGarments = []"
  shows "generateOutfits host garments input
         = Inr \<lparr>outfits = [], explanation = noHighQualityText, totalGenerated = 0\<rparr>
         \<and> noHighQualityText \<noteq> emptyWardrobeText \<and> noHighQualityText \<noteq> noSuitableText"
proof -
  have "garments \<noteq> []"
    using assms(1,2) by (auto simp: filterByContext_def)
  moreover have "generateCandidates filteredGarments (requestMood input) = Inr []"
    using assms(3) by (rule generateCandidates_no_pair)
  ultimately have "generateOutfits host garments input
         = Inr \<lparr>outfits = [], explanation = noHighQualityText, totalGenerated = 0\<rparr>"
    using assms(1,2) by (simp add: generateOutfits_def rankCandidates_Nil)
  moreover have "noHighQualityText \<noteq> emptyWardrobeText \<and> noHighQualityText \<noteq> noSuitableText"
    by (simp add: noHighQualityText_def emptyWardrobeText_def noSuitableText_def)
  ultimately show ?thesis by (rule conjI)
qed

theorem no_pair_outcome_witness:
  "filterByContext [whiteSneakers, goldNecklace] plainRequest = Inr [whiteSneakers, goldNecklace]
   \<and> [whiteSneakers, goldNecklace] \<noteq> []
   \<and> ofCategory Tops [whiteSneakers, goldNecklace] = []
   \<and> generateOutfits tickingHost [whiteSneakers, goldNecklace] plainRequest
       = Inr \<lparr>outfits = [], explanation = noHighQualityText, totalGenerated = 0\<rparr>"
proof -
  have f: "filterByContext [whiteSneakers, goldNecklace] plainRequest = Inr [whiteSneakers, goldNecklace]"
    by code_simp
  have n: "[whiteSneakers, goldNecklace] \<noteq> []" by simp
  have t: "ofCategory Tops [whiteSneakers, goldNecklace] = []" by code_simp
  from no_pair_outcome [OF f n disjI1 [OF t], of tickingHost]
  have r: "generateOutfits tickingHost [whiteSneakers, goldNecklace] plainRequest
       = Inr \<lparr>outfits = [], explanation = noHighQualityText, totalGenerated = 0\<rparr>" ..
  show ?thesis by (intro conjI f n t r)
qed

theorem no_pair_outcome_counterexample:
  "(case generateOutfits tickingHost [whiteSneakers, goldNecklace] plainRequest of
      Inl e \<Rightarrow> None
    | Inr out \<Rightarrow> Some (explanation out))
   = Some ''No high-quality outfit combinations found. Try adjusting your mood, weather, or add more items to your closet.''
   \<and> ''No high-quality outfit combinations found. Try adjusting your mood, weather, or add more items to your closet.''
       \<noteq> ''No suitable outfits found for the current weather and mood combination.''"
  by code_simp

text \<open>
  C4. The temperature check of the context filter. Above 25 degrees a garment is excluded
  exactly when it is outerwear or its material contains, case-insensitively, wool or
  fleece; below 10 degrees it is admitted exactly when it is outerwear or its material
  contains wool, fleece, down or synthetic; from 10 to 25 degrees it is admitted.
\<close>

theorem isTemperatureAppropriate_cases:
  "(temp > 25 \<longrightarrow>
      (\<not> isTemperatureAppropriate garment temp \<longleftrightarrow>
         category garment = Outerwear \<or> materialHas garment ''wool''
         \<or> materialHas garment ''fleece''))
   \<and> (temp < 10 \<longrightarrow>
      (isTemperatureAppropriate garment temp \<longleftrightarrow>
         category garment = Outerwear \<or> materialHas garment ''wool''
         \<or> materialHas garment ''fleece'' \<or> materialHas garment ''down''
         \<or> materialHas garment ''synthetic''))
   \<and> (10 \<le> temp \<and> temp \<le> 25 \<longrightarrow> isTemperatureAppropriate garment temp)"
proof -
  have wool: "includesStr (case material garment of Some m \<Rightarrow> toLowerCase m | None \<Rightarrow> []) ''wool''
              \<longleftrightarrow> materialHas garment ''wool''"
    by (rule includesStr_material) simp
  have fleece: "includesStr (case material garment of Some m \<Rightarrow> toLowerCase m | None \<Rightarrow> []) ''fleece''
              \<longleftrightarrow> materialHas garment ''fleece''"
    by (rule includesStr_material) simp
  have down: "includesStr (case material garment of Some m \<Rightarrow> toLowerCase m | None \<Rightarrow> []) ''down''
              \<longleftrightarrow> materialHas garment ''down''"
    by (rule includesStr_material) simp
  have synthetic: "includesStr (case material garment of Some m \<Rightarrow> toLowerCase m | None \<Rightarrow> []) ''synthetic''
              \<longleftrightarrow> materialHas garment ''synthetic''"
    by (rule includesStr_material) simp
  have hot: "temp > 25 \<Longrightarrow> \<not> isTemperatureAppropriate garment temp \<longleftrightarrow>
         category garment = Outerwear \<or> materialHas garment ''wool''
         \<or> materialHas garment ''fleece''"
    unfolding isTemperatureAppropriate_def Let_def wool fleece by simp
  have cold: "temp < 10 \<Longrightarrow> isTemperatureAppropriate garment temp \<longleftrightarrow>
         category garment = Outerwear \<or> materialHas garment ''wool''
         \<or> materialHas garment ''fleece'' \<or> materialHas garment ''down''
         \<or> materialHas garment ''synthetic''"
    unfolding isTemperatureAppropriate_def Let_def coldWeatherMaterials_def list_ex_Cons_iff list_ex_Nil_iff
      wool fleece down synthetic
    by auto
  have mild: "10 \<le> temp \<and> temp \<le> 25 \<Longrightarrow> isTemperatureAppropriate garment temp"
    by (simp add: isTemperatureAppropriate_def Let_def)
  from hot cold mild show ?thesis by blast
qed

theorem isTemperatureAppropriate_cases_witness:
  "(30::real) > 25 \<and> \<not> isTemperatureAppropriate woolSweater 30
   \<and> (5::real) < 10 \<and> isTemperatureAppropriate woolSweater 5
   \<and> (10::real) \<le> 20 \<and> (20::real) \<le> 25 \<and> isTemperatureAppropriate woolSweater 20"
proof -
  have w: "materialHas woolSweater ''wool''"
    unfolding materialHas_def
    by (intro exI [of _ "''wool''"] conjI) (simp_all add: woolSweater_def toLowerCase_def toLowerChar_def latin1Capitals_def
          latin1Smalls_def)
  from isTemperatureAppropriate_cases [of 30 woolSweater] w
  have "\<not> isTemperatureAppropriate woolSweater 30" by simp
  moreover from isTemperatureAppropriate_cases [of 5 woolSweater] w
  have "isTemperatureAppropriate woolSweater 5" by simp
  moreover from isTemperatureAppropriate_cases [of 20 woolSweater]
  have "isTemperatureAppropriate woolSweater 20" by simp
  ultimately show ?thesis by simp
qed



text \<open>
  C6, as amended. Every outfit the engine returns lists the ids of a top and a bottom of
  the input, then of at most one shoe of the input, then of at most one accessory of the
  input, in this order and with nothing else; so every id of the list is the id of an
  input garment. The text \<open>barefoot\<close> is in a returned list only as the id of an input
  garment: when no garment of the input has this id, no returned list contains it.
\<close>

theorem returned_outfit_composition:
  assumes "generateOutfits host garments input = Inr out" and "outfit \<in> set (outfits out)"
  shows "\<exists>topG bottomG ss as.
           topG \<in> set garments \<and> category topG = Tops
           \<and> bottomG \<in> set garments \<and> category bottomG = Bottoms
           \<and> length ss \<le> 1 \<and> list_all (\<lambda>s. s \<in> set garments \<and> category s = Shoes) ss
           \<and> length as \<le> 1 \<and> list_all (\<lambda>a. a \<in> set garments \<and> category a = Accessories) as
           \<and> outfitGarmentIds outfit = map garmentId ([topG, bottomG] @ ss @ as)
           \<and> (''barefoot'' \<notin> set (map garmentId garments)
                \<longrightarrow> ''barefoot'' \<notin> set (outfitGarmentIds outfit))"
proof -
  from assms obtain fg cs c index where fg: "filterByContext garments input = Inr fg"
    and cs: "generateCandidates fg (requestMood input) = Inr cs"
    and c: "c \<in> set cs" and o: "outfit = toOutfit host input (index, c)"
    by (rule outfit_from_candidate)
  from generateCandidates_elem [OF cs c] obtain topG bottomG ss as where
    t: "topG \<in> set (ofCategory Tops fg)" and b: "bottomG \<in> set (ofCategory Bottoms fg)"
    and ss: "set ss \<subseteq> set (ofCategory Shoes fg)" "length ss \<le> 1"
    and as: "set as \<subseteq> set (ofCategory Accessories fg)" "length as \<le> 1"
    and ids: "garmentIds c = map garmentId ([topG, bottomG] @ ss @ as)"
    by blast
  have sub: "set fg \<subseteq> set garments" using fg by (rule filterByContext_subset)
  have t': "topG \<in> set garments \<and> category topG = Tops"
    using t sub by (auto simp: set_ofCategory)
  have b': "bottomG \<in> set garments \<and> category bottomG = Bottoms"
    using b sub by (auto simp: set_ofCategory)
  have ss': "list_all (\<lambda>s. s \<in> set garments \<and> category s = Shoes) ss"
    using ss(1) sub by (auto simp: list_all_iff set_ofCategory)
  have as': "list_all (\<lambda>a. a \<in> set garments \<and> category a = Accessories) as"
    using as(1) sub by (auto simp: list_all_iff set_ofCategory)
  have ids': "outfitGarmentIds outfit = map garmentId ([topG, bottomG] @ ss @ as)"
    using o ids by (simp add: toOutfit_def)
  have "set ([topG, bottomG] @ ss @ as) \<subseteq> set garments"
    using t' b' ss' as' by (auto simp: list_all_iff)
  then have "set (outfitGarmentIds outfit) \<subseteq> set (map garmentId garments)"
    unfolding ids' by auto
  then have bare: "''barefoot'' \<notin> set (map garmentId garments)
                \<longrightarrow> ''barefoot'' \<notin> set (outfitGarmentIds outfit)"
    by blast
  from t' b' ss(2) ss' as(2) as' ids' bare show ?thesis by blast
qed

theorem returned_outfit_composition_witness:
  "''barefoot'' \<notin> set (map garmentId [linenShirt, skinnyJeans, whiteSneakers, goldNecklace])
   \<and> (\<exists>out outfit topG bottomG ss as.
        generateOutfits tickingHost [linenShirt, skinnyJeans, whiteSneakers, goldNecklace]
          plainRequest = Inr out
        \<and> outfit \<in> set (outfits out)
        \<and> topG \<in> set [linenShirt, skinnyJeans, whiteSneakers, goldNecklace]
        \<and> category topG = Tops
        \<and> bottomG \<in> set [linenShirt, skinnyJeans, whiteSneakers, goldNecklace]
        \<and> category bottomG = Bottoms
        \<and> length ss \<le> 1 \<and> length as \<le> 1
        \<and> outfitGarmentIds outfit = map garmentId ([topG, bottomG] @ ss @ as)
        \<and> outfitGarmentIds outfit = [''g1'', ''g2'', ''g3'', ''g8'']
        \<and> ''barefoot'' \<notin> set (outfitGarmentIds outfit))"
proof -
  let ?gs = "[linenShirt, skinnyJeans, whiteSneakers, goldNecklace]"
  let ?r = "generateOutfits tickingHost ?gs plainRequest"
  have nb: "''barefoot'' \<notin> set (map garmentId ?gs)" by code_simp
  have "(case ?r of Inl e \<Rightarrow> None | Inr out \<Rightarrow> Some (map outfitGarmentIds (outfits out)))
        = Some [[''g1'', ''g2'', ''g3''], [''g1'', ''g2'', ''g3'', ''g8'']]"
    by code_simp
  then obtain out where run: "?r = Inr out"
    and ids: "map outfitGarmentIds (outfits out)
              = [[''g1'', ''g2'', ''g3''], [''g1'', ''g2'', ''g3'', ''g8'']]"
    by (auto split: sum.splits)
  from ids obtain first outfit where os: "outfits out = [first, outfit]"
    and oid: "outfitGarmentIds outfit = [''g1'', ''g2'', ''g3'', ''g8'']"
    by (auto simp: map_eq_Cons_conv)
  have mem: "outfit \<in> set (outfits out)" by (simp add: os)
  from returned_outfit_composition [OF run mem] obtain topG bottomG ss as where
    c: "topG \<in> set ?gs" "category topG = Tops"
       "bottomG \<in> set ?gs" "category bottomG = Bottoms"
       "length ss \<le> 1" "length as \<le> 1"
       "outfitGarmentIds outfit = map garmentId ([topG, bottomG] @ ss @ as)"
    and bare: "''barefoot'' \<notin> set (map garmentId ?gs)
               \<longrightarrow> ''barefoot'' \<notin> set (outfitGarmentIds outfit)"
    by (elim exE conjE)
  from bare nb have nbo: "''barefoot'' \<notin> set (outfitGarmentIds outfit)" by (rule mp)
  have "\<exists>out outfit topG bottomG ss as.
        ?r = Inr out \<and> outfit \<in> set (outfits out)
        \<and> topG \<in> set ?gs \<and> category topG = Tops
        \<and> bottomG \<in> set ?gs \<and> category bottomG = Bottoms
        \<and> length ss \<le> 1 \<and> length as \<le> 1
        \<and> outfitGarmentIds outfit = map garmentId ([topG, bottomG] @ ss @ as)
        \<and> outfitGarmentIds outfit = [''g1'', ''g2'', ''g3'', ''g8'']
        \<and> ''barefoot'' \<notin> set (outfitGarmentIds outfit)"
    by (intro exI [of _ out] exI [of _ outfit] exI [of _ topG] exI [of _ bottomG]
          exI [of _ ss] exI [of _ as] conjI run mem c oid nbo)
  with nb show ?thesis by (rule conjI)
qed

theorem returned_outfit_composition_counterexample:
  "(case generateOutfits tickingHost [linenShirt, skinnyJeans, barefootSandals, goldNecklace]
           plainRequest of
      Inl e \<Rightarrow> None
    | Inr out \<Rightarrow> Some (map outfitGarmentIds (outfits out)))
   = Some [[''g1'', ''g2'', ''barefoot'', ''g8''], [''g1'', ''g2'']]
   \<and> ''barefoot'' \<in> set [''g1'', ''g2'', ''barefoot'', ''g8'']"
  by code_simp




text \<open>
  C8, as amended. Every candidate the engine generates for a request has a last reason,
  and it is the closing description the engine's mood table gives for the requested mood,
  \<open>Comfortable and warm\<close> for \<open>cozy\<close>; when the mood is absent or empty the engine
  runs with \<open>casual\<close> and the last reason is \<open>Perfect for a relaxed day\<close>; for a mood
  text outside the table it is the fallback \<open>Well-coordinated look\<close>.
\<close>

theorem closing_reason:
  assumes "generateCandidates filteredGarments (requestMood input) = Inr candidates"
    and "candidate \<in> set candidates"
  shows "reasons candidate \<noteq> [] \<and> last (reasons candidate) = closingFor (mood input)"
proof -
  from generateCandidates_elem [OF assms] obtain topG bottomG ss as where
    sc: "scoreOutfit ([topG, bottomG] @ ss @ as) (requestMood input) filteredGarments
         = Inr (score candidate)"
    and rs: "reasons candidate = generateReasons ([topG, bottomG] @ ss @ as) (requestMood input)"
    by blast
  have "\<not> inheritedName (requestMood input)"
  proof
    assume "inheritedName (requestMood input)"
    then have "scoreOutfit ([topG, bottomG] @ ss @ as) (requestMood input) filteredGarments
               = Inl TypeError"
      by (rule scoreOutfit_inherited) simp
    with sc show False by simp
  qed
  then have "closingDescription (requestMood input) = closingFor (mood input)"
    by (rule closingDescription_requestMood)
  moreover obtain before where
    "reasons candidate = before @ [closingDescription (requestMood input)]"
    unfolding rs using generateReasons_snoc by blast
  ultimately show ?thesis by simp
qed

theorem closing_reason_witness:
  "\<exists>candidates candidate.
     generateCandidates [linenShirt, skinnyJeans]
       (requestMood (plainRequest\<lparr>mood := Some ''cozy''\<rparr>)) = Inr candidates
     \<and> candidate \<in> set candidates
     \<and> last (reasons candidate) = ''Comfortable and warm''"
proof -
  let ?input = "plainRequest\<lparr>mood := Some ''cozy''\<rparr>"
  let ?r = "generateCandidates [linenShirt, skinnyJeans] (requestMood ?input)"
  have "(case ?r of Inl e \<Rightarrow> None | Inr cs \<Rightarrow> Some (map garmentIds cs)) = Some [[''g1'', ''g2'']]"
    by code_simp
  then obtain cs where run: "?r = Inr cs" and ids: "map garmentIds cs = [[''g1'', ''g2'']]"
    by (auto split: sum.splits)
  from ids obtain c where cs: "cs = [c]" by (cases cs) simp_all
  have mem: "c \<in> set cs" by (simp add: cs)
  have cozy: "closingFor (mood ?input) = ''Comfortable and warm''"
    by (simp add: closingFor_def)
  from closing_reason [OF run mem] have "last (reasons c) = closingFor (mood ?input)" ..
  then have l: "last (reasons c) = ''Comfortable and warm''" by (simp only: cozy)
  show ?thesis
    by (intro exI [of _ cs] exI [of _ c] conjI run mem l)
qed

theorem closing_reason_counterexample:
  "mood plainRequest = None
   \<and> (case generateCandidates [linenShirt, skinnyJeans] (requestMood plainRequest) of
         Inl e \<Rightarrow> None
       | Inr candidates \<Rightarrow> Some (map (\<lambda>candidate. last (reasons candidate)) candidates))
      = Some [''Perfect for a relaxed day'']
   \<and> ''Perfect for a relaxed day'' \<noteq> ''Well-coordinated look''"
  by code_simp

text \<open>
  C9. The engine is a function of its arguments, so two calls on the same garments and
  context can differ only through the clock. Whatever the two clocks read, the two calls
  throw alike or return the same outfits in the same order with the same garment ids,
  scores and explanations, the same top-level explanation and the same total: only the id
  and the creation date of an outfit depend on the clock.
\<close>

theorem generateOutfits_clock_independent:
  "unstampedResult (generateOutfits (host\<lparr>clock := clock1\<rparr>) garments input)
   = unstampedResult (generateOutfits (host\<lparr>clock := clock2\<rparr>) garments input)"
  by (simp only: unstampedResult_clock)



end
